theory Spec2Isabelle
  imports Main
begin

section \<open>Data model of the reference resolver\<close>

text \<open>
  The resolver of \<^verbatim>\<open>src/compiler/referenceResolution.ts\<close>. A resolved file is a path with
  its content; a source unit is a resolved file together with the references that
  preprocessing found in it (\<^verbatim>\<open>null\<close> until they are set).
\<close>

record IFileReference =
  line :: nat
  character :: nat
  refPath :: string
  isResident :: bool

record IResolvedFile =
  content :: string
  path :: string

record SourceUnit = IResolvedFile +
  referencedFiles :: "IFileReference list option"

text \<open>
  The file system capability. \<^verbatim>\<open>readFile\<close> throws when the file cannot be read and
  \<^verbatim>\<open>findFile\<close> returns \<^verbatim>\<open>null\<close> when the search fails: both are \<open>None\<close> here.
\<close>

record IFileSystemObject =
  resolvePath :: "string \<Rightarrow> string"
  readFile :: "string \<Rightarrow> string option"
  findFile :: "string \<Rightarrow> string \<Rightarrow> IResolvedFile option"
  dirName :: "string \<Rightarrow> string"

record CompilationSettings =
  useCaseSensitiveFileResolution :: bool

record CompilationEnvironment =
  compilationSettings :: CompilationSettings
  ioHost :: IFileSystemObject
  code :: "SourceUnit list"

text \<open>
  The path helpers, \<^verbatim>\<open>String.toLocaleUpperCase\<close> and \<^verbatim>\<open>preProcessFile\<close> are called by the
  resolver and defined elsewhere; the resolver is modelled over any choice of them.
  \<^verbatim>\<open>preProcessFile\<close> yields the explicit references and the imports of a unit, in order.
\<close>

record externals =
  isRelative :: "string \<Rightarrow> bool"
  isRooted :: "string \<Rightarrow> bool"
  isSTRFile :: "string \<Rightarrow> bool"
  isTSFile :: "string \<Rightarrow> bool"
  changePathToTS :: "string \<Rightarrow> string"
  changePathToSTR :: "string \<Rightarrow> string"
  changePathToDSTR :: "string \<Rightarrow> string"
  changePathToDTS :: "string \<Rightarrow> string"
  stripQuotes :: "string \<Rightarrow> string"
  switchToForwardSlashes :: "string \<Rightarrow> string"
  toLocaleUpperCase :: "string \<Rightarrow> string"
  preProcessFile :: "SourceUnit \<Rightarrow> CompilationSettings \<Rightarrow> IFileReference list \<times> IFileReference list"

text \<open>
  The dispatcher is a pair of callbacks; \<open>'d\<close> is whatever the callbacks accumulate.
\<close>

record 'd IResolutionDispatcher =
  postResolutionError :: "string \<Rightarrow> IFileReference \<Rightarrow> string \<Rightarrow> 'd \<Rightarrow> 'd"
  postResolution :: "string \<Rightarrow> SourceUnit \<Rightarrow> 'd \<Rightarrow> 'd"

text \<open>
  Calls made on the file system, in order, each with whether it produced a file.
\<close>

datatype ioCall =
  ReadFile string bool
  | FindFile string string bool

text \<open>
  What a call of \<^verbatim>\<open>resolveCode\<close> can change: the resolver's \<^verbatim>\<open>visited\<close> object (keys set
  to \<^verbatim>\<open>true\<close>), the file system calls made so far, and the dispatcher's accumulated state.
\<close>

record 'd resolverState =
  visited :: "string \<rightharpoonup> bool"
  ioLog :: "ioCall list"
  dispatched :: "'d"

definition isVisited :: "'d resolverState \<Rightarrow> string \<Rightarrow> bool" where
  "isVisited s k = (visited s k = Some True)"

section \<open>Path normalisation and the two acquisition strategies\<close>

text \<open>Lines 100 to 112: the normalised path of a reference.\<close>

definition normalizedPathOf :: "externals \<Rightarrow> IFileSystemObject \<Rightarrow> string \<Rightarrow> string \<Rightarrow> bool \<Rightarrow> string" where
  "normalizedPathOf X io referencePath parentPath performSearch =
     (let isRelativePath = isRelative X referencePath;
          isRootedPath = (if isRelativePath then False else isRooted X referencePath);
          normalizedPath =
            (if isRelativePath then resolvePath io (parentPath @ ''/'' @ referencePath)
             else if isRootedPath \<or> parentPath = [] \<or> performSearch then referencePath
             else parentPath @ ''/'' @ referencePath);
          normalizedPath =
            (if \<not> isSTRFile X normalizedPath \<and> \<not> isTSFile X normalizedPath
             then normalizedPath @ ''.ts'' else normalizedPath)
      in switchToForwardSlashes X (stripQuotes X normalizedPath))"

text \<open>Line 113: the key under which the reference is marked visited.\<close>

definition absoluteModuleID :: "externals \<Rightarrow> CompilationEnvironment \<Rightarrow> string \<Rightarrow> string \<Rightarrow> bool \<Rightarrow> string" where
  "absoluteModuleID X env referencePath parentPath performSearch =
     (let normalizedPath = normalizedPathOf X (ioHost env) referencePath parentPath performSearch
      in if useCaseSensitiveFileResolution (compilationSettings env) then normalizedPath
         else toLocaleUpperCase X normalizedPath)"

text \<open>Line 118: whether the direct strategy is taken.\<close>

definition isDirect :: "externals \<Rightarrow> string \<Rightarrow> bool \<Rightarrow> bool" where
  "isDirect X referencePath performSearch =
     (let isRelativePath = isRelative X referencePath;
          isRootedPath = (if isRelativePath then False else isRooted X referencePath)
      in isRelativePath \<or> isRootedPath \<or> \<not> performSearch)"

text \<open>Lines 128 to 133 and 168 to 173: swap between the two source suffixes.\<close>

definition swapSourceSuffix :: "externals \<Rightarrow> string \<Rightarrow> string" where
  "swapSourceSuffix X normalizedPath =
     (if isSTRFile X normalizedPath then changePathToTS X normalizedPath
      else if isTSFile X normalizedPath then changePathToSTR X normalizedPath
      else normalizedPath)"

text \<open>
  Lines 119 to 160, the nested \<^verbatim>\<open>try\<close> blocks: read the normalised path, then the swapped
  source suffix, then \<^verbatim>\<open>.d.str\<close>, then \<^verbatim>\<open>.d.ts\<close>. The result is the calls made and the
  file under the path that was read, or \<open>None\<close> when the fourth read throws as well.
\<close>

definition readDirect :: "externals \<Rightarrow> IFileSystemObject \<Rightarrow> string \<Rightarrow> ioCall list \<times> IResolvedFile option" where
  "readDirect X io normalizedPath =
     (case readFile io normalizedPath of
        Some c \<Rightarrow> ([ReadFile normalizedPath True], Some \<lparr>content = c, path = normalizedPath\<rparr>)
      | None \<Rightarrow>
         (let p2 = swapSourceSuffix X normalizedPath in
          case readFile io p2 of
            Some c \<Rightarrow> ([ReadFile normalizedPath False, ReadFile p2 True], Some \<lparr>content = c, path = p2\<rparr>)
          | None \<Rightarrow>
             (let p3 = changePathToDSTR X p2 in
              case readFile io p3 of
                Some c \<Rightarrow> ([ReadFile normalizedPath False, ReadFile p2 False, ReadFile p3 True],
                           Some \<lparr>content = c, path = p3\<rparr>)
              | None \<Rightarrow>
                 (let p4 = changePathToDTS X p3 in
                  case readFile io p4 of
                    Some c \<Rightarrow> ([ReadFile normalizedPath False, ReadFile p2 False, ReadFile p3 False,
                                ReadFile p4 True], Some \<lparr>content = c, path = p4\<rparr>)
                  | None \<Rightarrow> ([ReadFile normalizedPath False, ReadFile p2 False, ReadFile p3 False,
                              ReadFile p4 False], None)))))"

text \<open>
  Lines 165 to 191: search for the normalised name, then the swapped source suffix, then
  \<^verbatim>\<open>.d.ts\<close>, then \<^verbatim>\<open>.d.str\<close>; the path of a file found is stripped of quotes and
  switched to forward slashes.
\<close>

definition foundFile :: "externals \<Rightarrow> IResolvedFile \<Rightarrow> IResolvedFile" where
  "foundFile X resolvedFile = resolvedFile\<lparr>path := switchToForwardSlashes X (stripQuotes X (path resolvedFile))\<rparr>"

definition searchFile :: "externals \<Rightarrow> IFileSystemObject \<Rightarrow> string \<Rightarrow> string \<Rightarrow> ioCall list \<times> IResolvedFile option" where
  "searchFile X io parentPath normalizedPath =
     (case findFile io parentPath normalizedPath of
        Some r \<Rightarrow> ([FindFile parentPath normalizedPath True], Some (foundFile X r))
      | None \<Rightarrow>
         (let p2 = swapSourceSuffix X normalizedPath in
          case findFile io parentPath p2 of
            Some r \<Rightarrow> ([FindFile parentPath normalizedPath False, FindFile parentPath p2 True],
                       Some (foundFile X r))
          | None \<Rightarrow>
             (let p3 = changePathToDTS X p2 in
              case findFile io parentPath p3 of
                Some r \<Rightarrow> ([FindFile parentPath normalizedPath False, FindFile parentPath p2 False,
                            FindFile parentPath p3 True], Some (foundFile X r))
              | None \<Rightarrow>
                 (let p4 = changePathToDSTR X p3 in
                  case findFile io parentPath p4 of
                    Some r \<Rightarrow> ([FindFile parentPath normalizedPath False, FindFile parentPath p2 False,
                                FindFile parentPath p3 False, FindFile parentPath p4 True],
                               Some (foundFile X r))
                  | None \<Rightarrow> ([FindFile parentPath normalizedPath False, FindFile parentPath p2 False,
                              FindFile parentPath p3 False, FindFile parentPath p4 False], None)))))"

section \<open>resolveCode\<close>

text \<open>
  The two loops of lines 209 to 236, over the recursive call \<open>rc\<close>. A reference whose
  resolved path is the file's own is reported and skipped; a reference that does not
  resolve is reported. \<open>None\<close> is a recursive call that did not return.
\<close>

definition selfReferenceMessage :: string where
  "selfReferenceMessage = ''Incorrect reference: File contains reference to itself.''"

definition unresolvedReferenceMessage :: "string \<Rightarrow> string" where
  "unresolvedReferenceMessage p = ''Incorrect reference: referenced file: \"'' @ p @ ''\" cannot be resolved.''"

definition unresolvedImportMessage :: "string \<Rightarrow> string" where
  "unresolvedImportMessage p = ''Incorrect reference: imported file: \"'' @ p @ ''\" cannot be resolved.''"

definition reportError :: "'d IResolutionDispatcher \<Rightarrow> string \<Rightarrow> IFileReference \<Rightarrow> string \<Rightarrow> 'd resolverState \<Rightarrow> 'd resolverState" where
  "reportError resolutionDispatcher errorFile fileReference errorMessage s =
     s\<lparr>dispatched := postResolutionError resolutionDispatcher errorFile fileReference errorMessage (dispatched s)\<rparr>"

fun resolveReferences ::
  "(string \<Rightarrow> string \<Rightarrow> bool \<Rightarrow> 'd resolverState \<Rightarrow> (bool \<times> 'd resolverState) option) \<Rightarrow>
   externals \<Rightarrow> IFileSystemObject \<Rightarrow> 'd IResolutionDispatcher \<Rightarrow> string \<Rightarrow> string \<Rightarrow>
   IFileReference list \<Rightarrow> 'd resolverState \<Rightarrow> 'd resolverState option" where
  "resolveReferences rc X io resolutionDispatcher resolvedFilePath rootDir [] s = Some s"
| "resolveReferences rc X io resolutionDispatcher resolvedFilePath rootDir (fileReference # rest) s =
     (let normalizedPath = resolvePath io
            (if isRooted X (refPath fileReference) then refPath fileReference
             else rootDir @ ''/'' @ refPath fileReference)
      in if resolvedFilePath = normalizedPath
         then resolveReferences rc X io resolutionDispatcher resolvedFilePath rootDir rest
                (reportError resolutionDispatcher normalizedPath fileReference selfReferenceMessage s)
         else (case rc (refPath fileReference) rootDir False s of
                 None \<Rightarrow> None
               | Some (resolutionResult, s1) \<Rightarrow>
                   resolveReferences rc X io resolutionDispatcher resolvedFilePath rootDir rest
                     (if \<not> resolutionResult
                      then reportError resolutionDispatcher resolvedFilePath fileReference
                             (unresolvedReferenceMessage (refPath fileReference)) s1
                      else s1)))"

fun resolveImports ::
  "(string \<Rightarrow> string \<Rightarrow> bool \<Rightarrow> 'd resolverState \<Rightarrow> (bool \<times> 'd resolverState) option) \<Rightarrow>
   'd IResolutionDispatcher \<Rightarrow> string \<Rightarrow> string \<Rightarrow>
   IFileReference list \<Rightarrow> 'd resolverState \<Rightarrow> 'd resolverState option" where
  "resolveImports rc resolutionDispatcher resolvedFilePath rootDir [] s = Some s"
| "resolveImports rc resolutionDispatcher resolvedFilePath rootDir (fileImport # rest) s =
     (case rc (refPath fileImport) rootDir True s of
        None \<Rightarrow> None
      | Some (resolutionResult, s1) \<Rightarrow>
          resolveImports rc resolutionDispatcher resolvedFilePath rootDir rest
            (if \<not> resolutionResult
             then reportError resolutionDispatcher resolvedFilePath fileImport
                    (unresolvedImportMessage (refPath fileImport)) s1
             else s1))"

text \<open>
  Lines 197 to 240: preprocess the acquired file, resolve its references and its imports,
  then hand the unit to the dispatcher.
\<close>

definition processResolved ::
  "(string \<Rightarrow> string \<Rightarrow> bool \<Rightarrow> 'd resolverState \<Rightarrow> (bool \<times> 'd resolverState) option) \<Rightarrow>
   externals \<Rightarrow> CompilationEnvironment \<Rightarrow> 'd IResolutionDispatcher \<Rightarrow> IResolvedFile \<Rightarrow>
   'd resolverState \<Rightarrow> (bool \<times> 'd resolverState) option" where
  "processResolved rc X env resolutionDispatcher resolvedFile s =
     (let rootDir = dirName (ioHost env) (path resolvedFile);
          sourceUnit = \<lparr>content = content resolvedFile, path = path resolvedFile, referencedFiles = None\<rparr>;
          preProcessedFileInfo = preProcessFile X sourceUnit (compilationSettings env);
          resolvedFilePath = resolvePath (ioHost env) (path resolvedFile);
          sourceUnit = sourceUnit\<lparr>referencedFiles := Some (fst preProcessedFileInfo)\<rparr>
      in case resolveReferences rc X (ioHost env) resolutionDispatcher resolvedFilePath rootDir
                (fst preProcessedFileInfo) s of
           None \<Rightarrow> None
         | Some s1 \<Rightarrow>
            (case resolveImports rc resolutionDispatcher resolvedFilePath rootDir
                    (snd preProcessedFileInfo) s1 of
               None \<Rightarrow> None
             | Some s2 \<Rightarrow>
                 Some (True, s2\<lparr>dispatched := postResolution resolutionDispatcher (path sourceUnit)
                                                 sourceUnit (dispatched s2)\<rparr>)))"

text \<open>
  \<^verbatim>\<open>CodeResolver.resolveCode\<close>, lines 93 to 243. The recursion follows the reference graph
  and need not end, so the first argument bounds its depth: \<open>None\<close> is a call that has not
  returned within that depth.
\<close>

primrec resolveCode ::
  "nat \<Rightarrow> externals \<Rightarrow> CompilationEnvironment \<Rightarrow> 'd IResolutionDispatcher \<Rightarrow>
   string \<Rightarrow> string \<Rightarrow> bool \<Rightarrow> 'd resolverState \<Rightarrow> (bool \<times> 'd resolverState) option" where
  "resolveCode 0 X env resolutionDispatcher referencePath parentPath performSearch s = None"
| "resolveCode (Suc depth) X env resolutionDispatcher referencePath parentPath performSearch s =
     (let normalizedPath = normalizedPathOf X (ioHost env) referencePath parentPath performSearch;
          absoluteModuleID = absoluteModuleID X env referencePath parentPath performSearch
      in if isVisited s absoluteModuleID then Some (True, s)
         else if isDirect X referencePath performSearch
         then (case readDirect X (ioHost env) normalizedPath of
                 (calls, None) \<Rightarrow> Some (False, s\<lparr>ioLog := ioLog s @ calls\<rparr>)
               | (calls, Some resolvedFile) \<Rightarrow>
                   processResolved (resolveCode depth X env resolutionDispatcher) X env
                     resolutionDispatcher resolvedFile
                     (s\<lparr>ioLog := ioLog s @ calls, visited := (visited s)(absoluteModuleID \<mapsto> True)\<rparr>))
         else (case searchFile X (ioHost env) parentPath normalizedPath of
                 (calls, None) \<Rightarrow> Some (True, s\<lparr>ioLog := ioLog s @ calls\<rparr>)
               | (calls, Some resolvedFile) \<Rightarrow>
                   processResolved (resolveCode depth X env resolutionDispatcher) X env
                     resolutionDispatcher resolvedFile
                     (s\<lparr>ioLog := ioLog s @ calls, visited := (visited s)(absoluteModuleID \<mapsto> True)\<rparr>)))"


section \<open>The command line host\<close>

text \<open>
  \<^verbatim>\<open>CommandLineHost\<close> keeps \<^verbatim>\<open>pathMap\<close> and \<^verbatim>\<open>resolvedPaths\<close>; its dispatcher also appends
  to the code of the resolved environment and writes lines through the error reporter.
\<close>

record CommandLineHost =
  pathMap :: "string \<rightharpoonup> string"
  resolvedPaths :: "string \<rightharpoonup> bool"
  resolvedEnvCode :: "SourceUnit list"
  errorReporter :: "string list"

definition getPathIdentifier :: "externals \<Rightarrow> CompilationSettings \<Rightarrow> string \<Rightarrow> string" where
  "getPathIdentifier X settings p =
     (if useCaseSensitiveFileResolution settings then p else toLocaleUpperCase X p)"

text \<open>
  The dispatcher's error callback is declared with the parameters
  \<^verbatim>\<open>(errorFile, line, col, errorMessage)\<close> and concatenates them into one string. The values
  that reach it are strings, numbers, a file reference object, or nothing at all for a
  parameter the caller did not pass; string concatenation converts each to text.
\<close>

datatype jsValue =
  JSString string
  | JSNumber nat
  | JSFileReference IFileReference
  | JSUndefined

fun digitChar :: "nat \<Rightarrow> char" where
  "digitChar n = (''0123456789'' ! (n mod 10))"

fun decimal :: "nat \<Rightarrow> string" where
  "decimal n = (if n < 10 then [digitChar n] else decimal (n div 10) @ [digitChar n])"

fun toText :: "jsValue \<Rightarrow> string" where
  "toText (JSString s) = s"
| "toText (JSNumber n) = decimal n"
| "toText (JSFileReference r) = ''[object Object]''"
| "toText JSUndefined = ''undefined''"

text \<open>The comparison \<^verbatim>\<open>errorMessage == ""\<close>.\<close>

fun looselyEmpty :: "jsValue \<Rightarrow> bool" where
  "looselyEmpty (JSString s) = (s = [])"
| "looselyEmpty (JSNumber n) = (n = 0)"
| "looselyEmpty (JSFileReference r) = False"
| "looselyEmpty JSUndefined = False"

text \<open>Lines 75 to 77 of the host: the line handed to the error reporter.\<close>

definition renderResolutionError :: "string \<Rightarrow> jsValue \<Rightarrow> jsValue \<Rightarrow> jsValue \<Rightarrow> string" where
  "renderResolutionError errorFile lineArg col errorMessage =
     errorFile @ ''('' @ toText lineArg @ '','' @ toText col @ '') '' @
       (if looselyEmpty errorMessage then [] else '': '' @ toText errorMessage)"

text \<open>
  Lines 74 to 85. The resolver calls \<^verbatim>\<open>postResolutionError\<close> with three arguments, the
  file, the reference and the message: they arrive as \<^verbatim>\<open>errorFile\<close>, \<^verbatim>\<open>line\<close> and \<^verbatim>\<open>col\<close>,
  and \<^verbatim>\<open>errorMessage\<close> is undefined.
\<close>

definition resolutionDispatcher :: "externals \<Rightarrow> CompilationSettings \<Rightarrow> CommandLineHost IResolutionDispatcher" where
  "resolutionDispatcher X settings =
     \<lparr>postResolutionError = (\<lambda>errorFile fileReference errorMessage h.
          h\<lparr>errorReporter := errorReporter h @
               [renderResolutionError errorFile (JSFileReference fileReference)
                  (JSString errorMessage) JSUndefined]\<rparr>),
      postResolution = (\<lambda>p code h.
          let pathId = getPathIdentifier X settings p
          in if resolvedPaths h pathId \<noteq> Some True
             then h\<lparr>resolvedEnvCode := resolvedEnvCode h @ [code],
                    resolvedPaths := (resolvedPaths h)(pathId \<mapsto> True)\<rparr>
             else h)\<rparr>"

text \<open>Lines 87 to 91: one \<^verbatim>\<open>resolveCode\<close> per entry unit, with no parent and no search.\<close>

fun resolveEntries ::
  "nat \<Rightarrow> externals \<Rightarrow> CompilationEnvironment \<Rightarrow> SourceUnit list \<Rightarrow>
   CommandLineHost resolverState \<Rightarrow> CommandLineHost resolverState option" where
  "resolveEntries depth X preEnv [] s = Some s"
| "resolveEntries depth X preEnv (unit # rest) s =
     (let p = switchToForwardSlashes X (resolvePath (ioHost preEnv) (path unit));
          s0 = s\<lparr>dispatched := (dispatched s)\<lparr>pathMap := (pathMap (dispatched s))(path unit \<mapsto> p)\<rparr>\<rparr>
      in case resolveCode depth X preEnv (resolutionDispatcher X (compilationSettings preEnv))
                p [] False s0 of
           None \<Rightarrow> None
         | Some (r, s1) \<Rightarrow> resolveEntries depth X preEnv rest s1)"

text \<open>
  \<^verbatim>\<open>resolveCompilationEnvironment\<close>, lines 61 to 94, for a fresh host and a fresh resolver:
  the resolved environment, with the host and the resolver as the pass leaves them.
\<close>

definition newCommandLineHost :: CommandLineHost where
  "newCommandLineHost = \<lparr>pathMap = Map.empty, resolvedPaths = Map.empty, resolvedEnvCode = [],
                          errorReporter = []\<rparr>"

definition newCodeResolver :: "'d \<Rightarrow> 'd resolverState" where
  "newCodeResolver d = \<lparr>visited = Map.empty, ioLog = [], dispatched = d\<rparr>"

definition resolveCompilationEnvironment ::
  "nat \<Rightarrow> externals \<Rightarrow> CompilationEnvironment \<Rightarrow>
   (CompilationEnvironment \<times> CommandLineHost resolverState) option" where
  "resolveCompilationEnvironment depth X preEnv =
     (case resolveEntries depth X preEnv (code preEnv) (newCodeResolver newCommandLineHost) of
        None \<Rightarrow> None
      | Some s \<Rightarrow> Some (preEnv\<lparr>code := resolvedEnvCode (dispatched s)\<rparr>, s))"

text \<open>A dispatcher that only records the calls made on it, in order.\<close>

datatype dispatcherCall =
  PostResolutionError string IFileReference string
  | PostResolution string SourceUnit

definition recorder :: "dispatcherCall list IResolutionDispatcher" where
  "recorder =
     \<lparr>postResolutionError = (\<lambda>errorFile fileReference errorMessage calls.
          calls @ [PostResolutionError errorFile fileReference errorMessage]),
      postResolution = (\<lambda>p source calls. calls @ [PostResolution p source])\<rparr>"

fun postResolutionPaths :: "dispatcherCall list \<Rightarrow> string list" where
  "postResolutionPaths [] = []"
| "postResolutionPaths (PostResolution p source # calls) = p # postResolutionPaths calls"
| "postResolutionPaths (PostResolutionError f r m # calls) = postResolutionPaths calls"

section \<open>Watch reconciliation\<close>

text \<open>
  \<^verbatim>\<open>watchFiles\<close>, lines 555 to 658 of the host. A watcher is known by the file it watches;
  the calls on the watch capability are recorded in order.
\<close>

datatype IFileWatcher = Watcher string

datatype watchCall =
  WatchFile string
  | CloseWatcher IFileWatcher

record watchState =
  resolvedFiles :: "string list"
  watchers :: "string \<rightharpoonup> IFileWatcher"
  watchLog :: "watchCall list"

definition addWatcher :: "string \<Rightarrow> watchState \<Rightarrow> watchState" where
  "addWatcher filename w =
     (case watchers w filename of
        None \<Rightarrow> w\<lparr>watchLog := watchLog w @ [WatchFile filename],
                  watchers := (watchers w)(filename \<mapsto> Watcher filename)\<rparr>
      | Some watcher \<Rightarrow> w)"

definition removeWatcher :: "string \<Rightarrow> watchState \<Rightarrow> watchState" where
  "removeWatcher filename w =
     (case watchers w filename of
        Some watcher \<Rightarrow> w\<lparr>watchLog := watchLog w @ [CloseWatcher watcher],
                          watchers := (watchers w)(filename := None)\<rparr>
      | None \<Rightarrow> w)"

text \<open>
  The \<^verbatim>\<open>while\<close> loop of lines 601 to 619 over what is left of both lists; it returns the
  unmatched tails. \<open>localeCompare\<close> is the comparison of the host language.
\<close>

fun mergeLoop ::
  "(string \<Rightarrow> string \<Rightarrow> int) \<Rightarrow> string list \<Rightarrow> string list \<Rightarrow> watchState \<Rightarrow>
   string list \<times> string list \<times> watchState" where
  "mergeLoop localeCompare (old # oldFiles) (new # newFiles) w =
     (let compareResult = localeCompare old new
      in if compareResult = 0 then mergeLoop localeCompare oldFiles newFiles w
         else if compareResult < 0
         then mergeLoop localeCompare oldFiles (new # newFiles) (removeWatcher old w)
         else mergeLoop localeCompare (old # oldFiles) newFiles (addWatcher new w))"
| "mergeLoop localeCompare oldFiles newFiles w = (oldFiles, newFiles, w)"

text \<open>
  Lines 595 to 632 of \<^verbatim>\<open>onWatchedFileChange\<close>, given the freshly resolved environment:
  sort its paths, run the loop, remove what is left of the old list, add what is left
  of the new one, and store the new list.
\<close>

definition reconcileWatches ::
  "(string list \<Rightarrow> string list) \<Rightarrow> (string \<Rightarrow> string \<Rightarrow> int) \<Rightarrow> CompilationEnvironment \<Rightarrow>
   watchState \<Rightarrow> watchState" where
  "reconcileWatches sortFiles localeCompare resolvedEnvironment w =
     (let oldFiles = resolvedFiles w;
          newFiles = sortFiles (map path (code resolvedEnvironment))
      in case mergeLoop localeCompare oldFiles newFiles w of
           (oldRest, newRest, w1) \<Rightarrow>
             (fold addWatcher newRest (fold removeWatcher oldRest w1))\<lparr>resolvedFiles := newFiles\<rparr>)"


section \<open>A host for the scenarios\<close>

text \<open>
  Modelled from the spec: the case folding of paths, which the host language provides:
  the letters \<^verbatim>\<open>a\<close> to \<^verbatim>\<open>z\<close> become upper case. The source suffixes are \<^verbatim>\<open>.ts\<close> (primary, the
  default appended by the resolver) and \<^verbatim>\<open>.str\<close> (legacy), the declaration suffixes \<^verbatim>\<open>.d.ts\<close>
  and \<^verbatim>\<open>.d.str\<close>.
\<close>

definition upperCaseImpl :: "string \<Rightarrow> string" where
  "upperCaseImpl str =
     map (\<lambda>c. case map_of (zip ''abcdefghijklmnopqrstuvwxyz'' ''ABCDEFGHIJKLMNOPQRSTUVWXYZ'') c of
                 Some u \<Rightarrow> u | None \<Rightarrow> c) str"

text \<open>
  Modelled from the spec: the suffix test behind \<^verbatim>\<open>isSTRFile\<close> and \<^verbatim>\<open>isTSFile\<close>, which is
  not among the sources: the name is longer than the suffix and ends in it, in either case.
\<close>

definition isFileOfExtension :: "string \<Rightarrow> string \<Rightarrow> bool" where
  "isFileOfExtension fname ext =
     (length ext < length fname \<and>
      drop (length fname - length ext) (upperCaseImpl fname) = upperCaseImpl ext)"

text \<open>
  Modelled from the spec: \<^verbatim>\<open>stripQuotes\<close>, which is not among the sources: quote characters
  are removed.
\<close>

definition stripQuotesImpl :: "string \<Rightarrow> string" where
  "stripQuotesImpl str = filter (\<lambda>c. c \<noteq> CHR 0x22 \<and> c \<noteq> CHR 0x27) str"

text \<open>
  Modelled from the spec: \<^verbatim>\<open>switchToForwardSlashes\<close>, which is not among the sources: every
  backslash becomes a forward slash.
\<close>

definition switchToForwardSlashesImpl :: "string \<Rightarrow> string" where
  "switchToForwardSlashesImpl str = map (\<lambda>c. if c = CHR 0x5C then CHR ''/'' else c) str"

text \<open>
  Modelled from the spec: the removal of a recognised suffix, which the suffix changes
  \<^verbatim>\<open>changePathToTS\<close>, \<^verbatim>\<open>changePathToSTR\<close>, \<^verbatim>\<open>changePathToDSTR\<close> and \<^verbatim>\<open>changePathToDTS\<close> share
  and which is not among the sources; a declaration suffix is removed as a whole.
\<close>

definition trimModName :: "string \<Rightarrow> string" where
  "trimModName modName =
     (if isFileOfExtension modName ''.d.str'' then take (length modName - 6) modName
      else if isFileOfExtension modName ''.str'' then take (length modName - 4) modName
      else if isFileOfExtension modName ''.d.ts'' then take (length modName - 5) modName
      else if isFileOfExtension modName ''.ts'' then take (length modName - 3) modName
      else modName)"

text \<open>
  Modelled from the spec: a suffix change, which is not among the sources: the path without
  quotes and without its recognised suffix, followed by the new suffix.
\<close>

definition changePathTo :: "string \<Rightarrow> string \<Rightarrow> string" where
  "changePathTo ext modPath = trimModName (stripQuotesImpl modPath) @ ext"

text \<open>
  In the scenarios a table gives, for each file content, the paths of its explicit
  references and of its imports, in order; every reference is at line 1, character 0.
\<close>

definition mkReference :: "string \<Rightarrow> IFileReference" where
  "mkReference p = \<lparr>line = 1, character = 0, refPath = p, isResident = False\<rparr>"

text \<open>
  Modelled from the spec: the preprocessing capability, which is not among the sources: the
  ordered references and imports of a unit, here looked up by the content of the unit.
\<close>

definition preProcessTable ::
  "(string \<times> string list \<times> string list) list \<Rightarrow> SourceUnit \<Rightarrow> CompilationSettings \<Rightarrow>
   IFileReference list \<times> IFileReference list" where
  "preProcessTable table sourceUnit settings =
     (case map_of table (content sourceUnit) of
        None \<Rightarrow> ([], [])
      | Some (refs, imports) \<Rightarrow> (map mkReference refs, map mkReference imports))"

text \<open>
  Modelled from the spec: the helpers together, which are not among the sources. A path
  is relative when it starts with a dot and rooted when it starts with a slash.
\<close>

definition pathExternals :: "(string \<times> string list \<times> string list) list \<Rightarrow> externals" where
  "pathExternals table =
     \<lparr>isRelative = (\<lambda>p. take 1 p = ''.''),
      isRooted = (\<lambda>p. take 1 p = ''/''),
      isSTRFile = (\<lambda>p. isFileOfExtension p ''.str''),
      isTSFile = (\<lambda>p. isFileOfExtension p ''.ts''),
      changePathToTS = changePathTo ''.ts'',
      changePathToSTR = changePathTo ''.str'',
      changePathToDSTR = changePathTo ''.d.str'',
      changePathToDTS = changePathTo ''.d.ts'',
      stripQuotes = stripQuotesImpl,
      switchToForwardSlashes = switchToForwardSlashesImpl,
      toLocaleUpperCase = upperCaseImpl,
      preProcessFile = preProcessTable table\<rparr>"

text \<open>
  Modelled from the spec: \<^verbatim>\<open>dirName\<close> of the file system host, which is not among the
  sources: the path without its last component. The scenarios use a fixed list of files
  under absolute paths without dot segments, which \<^verbatim>\<open>resolvePath\<close> leaves as they are;
  \<^verbatim>\<open>readFile\<close> fails on a path that is not listed and \<^verbatim>\<open>findFile\<close> looks the name up in
  the given directory.
\<close>

definition dirNameImpl :: "string \<Rightarrow> string" where
  "dirNameImpl p = rev (drop 1 (dropWhile (\<lambda>c. c \<noteq> CHR ''/'') (rev p)))"

text \<open>
  Modelled from the spec: the file system capability with \<^verbatim>\<open>resolvePath\<close>, \<^verbatim>\<open>readFile\<close>,
  \<^verbatim>\<open>findFile\<close> and \<^verbatim>\<open>dirName\<close>, which is not among the sources, over a fixed list of files.
\<close>

definition fileSystem :: "(string \<times> string) list \<Rightarrow> IFileSystemObject" where
  "fileSystem files =
     \<lparr>resolvePath = (\<lambda>p. p),
      readFile = map_of files,
      findFile = (\<lambda>rootPath partialFilePath.
         case map_of files (rootPath @ ''/'' @ partialFilePath) of
           None \<Rightarrow> None
         | Some c \<Rightarrow> Some \<lparr>content = c, path = rootPath @ ''/'' @ partialFilePath\<rparr>),
      dirName = dirNameImpl\<rparr>"

definition environment :: "(string \<times> string) list \<Rightarrow> string list \<Rightarrow> CompilationEnvironment" where
  "environment files entries =
     \<lparr>compilationSettings = \<lparr>useCaseSensitiveFileResolution = False\<rparr>,
      ioHost = fileSystem files,
      code = map (\<lambda>p. \<lparr>content = [], path = p, referencedFiles = None\<rparr>) entries\<rparr>"

text \<open>
  The end-to-end scenario: \<^verbatim>\<open>main\<close> refers to \<^verbatim>\<open>util\<close> by a directive and imports
  \<^verbatim>\<open>lib\<close>; \<^verbatim>\<open>lib\<close> imports \<^verbatim>\<open>core\<close>.
\<close>

definition mainFiles :: "(string \<times> string) list" where
  "mainFiles = [(''/p/main.ts'', ''main''), (''/p/util.ts'', ''util''),
                (''/p/lib.ts'', ''lib''), (''/p/core.ts'', ''core'')]"

definition mainTable :: "(string \<times> string list \<times> string list) list" where
  "mainTable = [(''main'', [''util.ts''], [''lib'']), (''lib'', [], [''core''])]"





text \<open>A file whose first directive names the file itself and whose second names \<^verbatim>\<open>util\<close>.\<close>

definition selfFiles :: "(string \<times> string) list" where
  "selfFiles = [(''/p/s.ts'', ''self''), (''/p/util.ts'', ''util'')]"

definition selfTable :: "(string \<times> string list \<times> string list) list" where
  "selfTable = [(''self'', [''s.ts'', ''util.ts''], [])]"




text \<open>A file whose only directive names the file itself.\<close>

definition loneFiles :: "(string \<times> string) list" where
  "loneFiles = [(''/p/s.ts'', ''lone'')]"

definition loneTable :: "(string \<times> string list \<times> string list) list" where
  "loneTable = [(''lone'', [''s.ts''], [])]"

text \<open>
  The comparison and the sort of the host language on the paths of the watch scenario:
  by character code, the first difference deciding.
\<close>

fun ordinalCompare :: "string \<Rightarrow> string \<Rightarrow> int" where
  "ordinalCompare [] [] = 0"
| "ordinalCompare [] (y # ys) = -1"
| "ordinalCompare (x # xs) [] = 1"
| "ordinalCompare (x # xs) (y # ys) =
     (if (of_char x :: nat) < of_char y then -1
      else if (of_char y :: nat) < of_char x then 1
      else ordinalCompare xs ys)"

fun insertFile :: "string \<Rightarrow> string list \<Rightarrow> string list" where
  "insertFile f [] = [f]"
| "insertFile f (g # gs) = (if ordinalCompare f g \<le> 0 then f # g # gs else g # insertFile f gs)"

definition sortFilesImpl :: "string list \<Rightarrow> string list" where
  "sortFilesImpl fs = foldr insertFile fs []"

section \<open>Notions used to state the properties\<close>

text \<open>The keys marked visited.\<close>

definition visitedKeys :: "'d resolverState \<Rightarrow> string set" where
  "visitedKeys s = {k. isVisited s k}"

text \<open>
  The content acquisition of one call: the strategy that \<^verbatim>\<open>resolveCode\<close> selects, run on the
  normalised path.
\<close>

definition acquire :: "externals \<Rightarrow> CompilationEnvironment \<Rightarrow> string \<Rightarrow> string \<Rightarrow> bool \<Rightarrow> ioCall list \<times> IResolvedFile option" where
  "acquire X env referencePath parentPath performSearch =
     (let normalizedPath = normalizedPathOf X (ioHost env) referencePath parentPath performSearch
      in if isDirect X referencePath performSearch then readDirect X (ioHost env) normalizedPath
         else searchFile X (ioHost env) parentPath normalizedPath)"

text \<open>The state right after a successful acquisition: the calls logged, the key marked.\<close>

definition marked :: "'d resolverState \<Rightarrow> ioCall list \<Rightarrow> string \<Rightarrow> 'd resolverState" where
  "marked s calls k = s\<lparr>ioLog := ioLog s @ calls, visited := (visited s)(k \<mapsto> True)\<rparr>"

text \<open>The unit that is handed to the dispatcher for an acquired file.\<close>

definition unitOf :: "externals \<Rightarrow> CompilationEnvironment \<Rightarrow> IResolvedFile \<Rightarrow> SourceUnit" where
  "unitOf X env resolvedFile =
     \<lparr>content = content resolvedFile, path = path resolvedFile,
      referencedFiles = Some (fst (preProcessFile X
         \<lparr>content = content resolvedFile, path = path resolvedFile, referencedFiles = None\<rparr>
         (compilationSettings env)))\<rparr>"

text \<open>
  A later state grows out of an earlier one: every visited key stays visited and the log
  of file system calls is only appended to.
\<close>

definition grows :: "'d resolverState \<Rightarrow> 'd resolverState \<Rightarrow> bool" where
  "grows s s' = (visitedKeys s \<subseteq> visitedKeys s' \<and> (\<exists>calls. ioLog s' = ioLog s @ calls))"

text \<open>
  A relation between the states before and after that every returning call of \<open>rc\<close>
  establishes, and one that the steps of the loops keep.
\<close>

definition establishes ::
  "('d resolverState \<Rightarrow> 'd resolverState \<Rightarrow> bool) \<Rightarrow>
   (string \<Rightarrow> string \<Rightarrow> bool \<Rightarrow> 'd resolverState \<Rightarrow> (bool \<times> 'd resolverState) option) \<Rightarrow> bool" where
  "establishes R rc = (\<forall>ref parent search s r s'. rc ref parent search s = Some (r, s') \<longrightarrow> R s s')"

definition stepRel :: "'d IResolutionDispatcher \<Rightarrow> ('d resolverState \<Rightarrow> 'd resolverState \<Rightarrow> bool) \<Rightarrow> bool" where
  "stepRel D R = ((\<forall>s. R s s) \<and> (\<forall>s s1 s2. R s s1 \<longrightarrow> R s1 s2 \<longrightarrow> R s s2) \<and>
                  (\<forall>s f r m. R s (reportError D f r m s)))"

text \<open>
  What one call must establish around the processing of an acquired file, and when the
  acquisition fails.
\<close>

definition callRel ::
  "externals \<Rightarrow> CompilationEnvironment \<Rightarrow> 'd IResolutionDispatcher \<Rightarrow>
   ('d resolverState \<Rightarrow> 'd resolverState \<Rightarrow> bool) \<Rightarrow> bool" where
  "callRel X env D R =
     ((\<forall>s ref parent search calls. acquire X env ref parent search = (calls, None) \<longrightarrow>
          R s (s\<lparr>ioLog := ioLog s @ calls\<rparr>)) \<and>
      (\<forall>s ref parent search calls rf s2.
          \<not> isVisited s (absoluteModuleID X env ref parent search) \<longrightarrow>
          acquire X env ref parent search = (calls, Some rf) \<longrightarrow>
          R (marked s calls (absoluteModuleID X env ref parent search)) s2 \<longrightarrow>
          R s (s2\<lparr>dispatched := postResolution D (path rf) (unitOf X env rf) (dispatched s2)\<rparr>)))"

text \<open>The number of file system calls that produced a file.\<close>

fun isHit :: "ioCall \<Rightarrow> bool" where
  "isHit (ReadFile p found) = found"
| "isHit (FindFile root p found) = found"

definition hits :: "ioCall list \<Rightarrow> nat" where
  "hits calls = length (filter isHit calls)"






text \<open>A list of file system calls up to and including the first that produced a file.\<close>

fun untilFirstHit :: "ioCall list \<Rightarrow> ioCall list" where
  "untilFirstHit [] = []"
| "untilFirstHit (c # cs) = (if isHit c then [c] else c # untilFirstHit cs)"

text \<open>The call of the search capability for a name under a directory, with its outcome.\<close>

definition probe :: "IFileSystemObject \<Rightarrow> string \<Rightarrow> string \<Rightarrow> ioCall" where
  "probe io parentPath p = FindFile parentPath p (findFile io parentPath p \<noteq> None)"


text \<open>
  A module that exists only as two declaration files, one under each declaration suffix.
\<close>

definition declFiles :: "(string \<times> string) list" where
  "declFiles = [(''/p/m.d.str'', ''legacy declaration''), (''/p/m.d.ts'', ''primary declaration'')]"

section \<open>Every call relates the state before to the state after\<close>

lemma resolveCode_Suc:
  "resolveCode (Suc depth) X env D ref parent search s =
     (if isVisited s (absoluteModuleID X env ref parent search) then Some (True, s)
      else case acquire X env ref parent search of
             (calls, None) \<Rightarrow> Some (\<not> isDirect X ref search, s\<lparr>ioLog := ioLog s @ calls\<rparr>)
           | (calls, Some rf) \<Rightarrow>
               processResolved (resolveCode depth X env D) X env D rf
                 (marked s calls (absoluteModuleID X env ref parent search)))"
  by (simp add: acquire_def marked_def Let_def split: prod.splits option.splits)

lemma establishesD: "establishes R rc \<Longrightarrow> rc ref parent search s = Some (r, s') \<Longrightarrow> R s s'"
  unfolding establishes_def by blast

lemma stepRel_refl: "stepRel D R \<Longrightarrow> R s s"
  unfolding stepRel_def by blast

lemma stepRel_trans: "stepRel D R \<Longrightarrow> R s s1 \<Longrightarrow> R s1 s2 \<Longrightarrow> R s s2"
  unfolding stepRel_def by blast

lemma stepRel_report: "stepRel D R \<Longrightarrow> R s (reportError D f r m s)"
  unfolding stepRel_def by blast

lemma stepRel_report_if: "stepRel D R \<Longrightarrow> R s (if b then reportError D f r m s else s)"
  by (simp add: stepRel_refl stepRel_report)

lemma resolveReferences_rel:
  assumes R: "stepRel D R" and rc: "establishes R rc"
  shows "resolveReferences rc X io D rfp rootDir refs s = Some s' \<Longrightarrow> R s s'"
proof (induction refs arbitrary: s)
  case Nil
  then show ?case by (simp add: stepRel_refl [OF R])
next
  case (Cons fr refs)
  let ?np = "resolvePath io (if isRooted X (refPath fr) then refPath fr else rootDir @ ''/'' @ refPath fr)"
  show ?case
  proof (cases "rfp = ?np")
    case True
    with Cons.prems have "resolveReferences rc X io D rfp rootDir refs
        (reportError D ?np fr selfReferenceMessage s) = Some s'"
      by (simp add: Let_def)
    then have "R (reportError D ?np fr selfReferenceMessage s) s'" by (rule Cons.IH)
    with stepRel_report [OF R] show ?thesis by (rule stepRel_trans [OF R])
  next
    case False
    with Cons.prems obtain r s1 where call: "rc (refPath fr) rootDir False s = Some (r, s1)"
      and rest: "resolveReferences rc X io D rfp rootDir refs
          (if \<not> r then reportError D rfp fr (unresolvedReferenceMessage (refPath fr)) s1 else s1) = Some s'"
      by (auto simp: Let_def split: option.splits)
    have a: "R s s1" using establishesD [OF rc call] .
    have b: "R s1 (if \<not> r then reportError D rfp fr (unresolvedReferenceMessage (refPath fr)) s1 else s1)"
      by (rule stepRel_report_if [OF R])
    have c: "R (if \<not> r then reportError D rfp fr (unresolvedReferenceMessage (refPath fr)) s1 else s1) s'"
      using rest by (rule Cons.IH)
    from a b have "R s (if \<not> r then reportError D rfp fr (unresolvedReferenceMessage (refPath fr)) s1 else s1)"
      by (rule stepRel_trans [OF R])
    then show ?thesis using c by (rule stepRel_trans [OF R])
  qed
qed

lemma resolveImports_rel:
  assumes R: "stepRel D R" and rc: "establishes R rc"
  shows "resolveImports rc D rfp rootDir imps s = Some s' \<Longrightarrow> R s s'"
proof (induction imps arbitrary: s)
  case Nil
  then show ?case by (simp add: stepRel_refl [OF R])
next
  case (Cons fi imps)
  from Cons.prems obtain r s1 where call: "rc (refPath fi) rootDir True s = Some (r, s1)"
    and rest: "resolveImports rc D rfp rootDir imps
        (if \<not> r then reportError D rfp fi (unresolvedImportMessage (refPath fi)) s1 else s1) = Some s'"
    by (auto split: option.splits)
  have a: "R s s1" using establishesD [OF rc call] .
  have b: "R s1 (if \<not> r then reportError D rfp fi (unresolvedImportMessage (refPath fi)) s1 else s1)"
    by (rule stepRel_report_if [OF R])
  have c: "R (if \<not> r then reportError D rfp fi (unresolvedImportMessage (refPath fi)) s1 else s1) s'"
    using rest by (rule Cons.IH)
  from a b have "R s (if \<not> r then reportError D rfp fi (unresolvedImportMessage (refPath fi)) s1 else s1)"
    by (rule stepRel_trans [OF R])
  then show ?case using c by (rule stepRel_trans [OF R])
qed

lemma processResolved_rel:
  assumes R: "stepRel D R" and rc: "establishes R rc"
    and res: "processResolved rc X env D rf s = Some (r, s')"
  shows "r \<and> (\<exists>s2. R s s2 \<and>
           s' = s2\<lparr>dispatched := postResolution D (path rf) (unitOf X env rf) (dispatched s2)\<rparr>)"
proof -
  let ?info = "preProcessFile X \<lparr>content = content rf, path = path rf, referencedFiles = None\<rparr>
                  (compilationSettings env)"
  let ?rfp = "resolvePath (ioHost env) (path rf)"
  let ?dir = "dirName (ioHost env) (path rf)"
  obtain o1 where l1: "resolveReferences rc X (ioHost env) D ?rfp ?dir (fst ?info) s = o1"
    by simp
  show ?thesis
  proof (cases o1)
    case None
    with res l1 show ?thesis by (simp add: processResolved_def Let_def)
  next
    case (Some s1)
    note s1 = this
    obtain o2 where l2: "resolveImports rc D ?rfp ?dir (snd ?info) s1 = o2"
      by simp
    show ?thesis
    proof (cases o2)
      case None
      with res l1 l2 s1 show ?thesis by (simp add: processResolved_def Let_def)
    next
      case (Some s2)
      with res l1 l2 s1 have out: "r"
        "s' = s2\<lparr>dispatched := postResolution D (path rf) (unitOf X env rf) (dispatched s2)\<rparr>"
        by (simp_all add: processResolved_def Let_def unitOf_def)
      have "R s s1" using resolveReferences_rel [OF R rc] l1 s1 by blast
      moreover have "R s1 s2" using resolveImports_rel [OF R rc] l2 Some by blast
      ultimately have "R s s2" by (rule stepRel_trans [OF R])
      with out show ?thesis by blast
    qed
  qed
qed

lemma resolveCode_rel:
  assumes R: "stepRel D R" and C: "callRel X env D R"
  shows "resolveCode depth X env D ref parent search s = Some (r, s') \<Longrightarrow> R s s'"
proof (induction depth arbitrary: ref parent search s r s')
  case 0
  then show ?case by simp
next
  case (Suc depth)
  have rc: "establishes R (resolveCode depth X env D)"
    unfolding establishes_def using Suc.IH by blast
  let ?key = "absoluteModuleID X env ref parent search"
  show ?case
  proof (cases "isVisited s ?key")
    case True
    with Suc.prems have "s' = s" by (simp add: resolveCode_Suc del: resolveCode.simps)
    then show ?thesis by (simp add: stepRel_refl [OF R])
  next
    case unvisited: False
    obtain calls res where acq: "acquire X env ref parent search = (calls, res)"
      by (cases "acquire X env ref parent search")
    show ?thesis
    proof (cases res)
      case None
      with Suc.prems unvisited acq have "s' = s\<lparr>ioLog := ioLog s @ calls\<rparr>"
        by (simp add: resolveCode_Suc del: resolveCode.simps)
      moreover have "R s (s\<lparr>ioLog := ioLog s @ calls\<rparr>)"
        using C acq None unfolding callRel_def by blast
      ultimately show ?thesis by simp
    next
      case (Some rf)
      with Suc.prems unvisited acq
      have "processResolved (resolveCode depth X env D) X env D rf (marked s calls ?key) = Some (r, s')"
        by (simp add: resolveCode_Suc del: resolveCode.simps)
      from processResolved_rel [OF R rc this] obtain s2 where g: "R (marked s calls ?key) s2"
        and eq: "s' = s2\<lparr>dispatched := postResolution D (path rf) (unitOf X env rf) (dispatched s2)\<rparr>"
        by blast
      have "R s (s2\<lparr>dispatched := postResolution D (path rf) (unitOf X env rf) (dispatched s2)\<rparr>)"
        using C unvisited acq Some g unfolding callRel_def by blast
      then show ?thesis unfolding eq .
    qed
  qed
qed

subsection \<open>Visited keys stay visited, the log is only appended to\<close>

lemma grows_refl: "grows s s"
  by (simp add: grows_def)

lemma grows_trans: "grows s s1 \<Longrightarrow> grows s1 s2 \<Longrightarrow> grows s s2"
  unfolding grows_def by (elim conjE exE) (simp add: subset_trans)

lemma grows_report: "grows s (reportError D f r m s)"
  by (simp add: grows_def visitedKeys_def isVisited_def reportError_def)

lemma stepRel_grows: "stepRel D grows"
  unfolding stepRel_def
proof (intro conjI allI impI)
  fix s :: "'a resolverState" show "grows s s" by (rule grows_refl)
next
  fix s s1 s2 :: "'a resolverState" assume "grows s s1" "grows s1 s2"
  then show "grows s s2" by (rule grows_trans)
next
  fix s :: "'a resolverState" and f r m show "grows s (reportError D f r m s)" by (rule grows_report)
qed

lemma grows_marked: "grows s (marked s calls k)"
  by (simp add: grows_def visitedKeys_def isVisited_def marked_def subset_iff)

lemma grows_dispatched: "grows s s2 \<Longrightarrow> grows s (s2\<lparr>dispatched := d\<rparr>)"
  by (simp add: grows_def visitedKeys_def isVisited_def)

lemma grows_log: "grows s (s\<lparr>ioLog := ioLog s @ calls\<rparr>)"
  by (simp add: grows_def visitedKeys_def isVisited_def)

lemma callRel_grows: "callRel X env D grows"
  unfolding callRel_def
proof (intro conjI allI impI)
  fix s :: "'a resolverState" and calls
  show "grows s (s\<lparr>ioLog := ioLog s @ calls\<rparr>)" by (rule grows_log)
next
  fix s s2 :: "'a resolverState" and ref parent search calls rf
  assume "grows (marked s calls (absoluteModuleID X env ref parent search)) s2"
  with grows_marked have "grows s s2" by (rule grows_trans)
  then show "grows s (s2\<lparr>dispatched := postResolution D (path rf) (unitOf X env rf) (dispatched s2)\<rparr>)"
    by (rule grows_dispatched)
qed

lemma resolveCode_grows:
  "resolveCode depth X env D ref parent search s = Some (r, s') \<Longrightarrow> grows s s'"
  using resolveCode_rel [OF stepRel_grows callRel_grows] .

subsection \<open>The two strategies\<close>

lemma readDirect_None:
  assumes "readDirect X io np = (calls, None)"
  shows "calls = [ReadFile np False, ReadFile (swapSourceSuffix X np) False,
                  ReadFile (changePathToDSTR X (swapSourceSuffix X np)) False,
                  ReadFile (changePathToDTS X (changePathToDSTR X (swapSourceSuffix X np))) False]"
  using assms unfolding readDirect_def Let_def
  by (simp split: option.splits)



lemma searchFile_calls:
  "fst (searchFile X io parentPath np) =
     untilFirstHit (map (probe io parentPath)
       [np, swapSourceSuffix X np, changePathToDTS X (swapSourceSuffix X np),
        changePathToDSTR X (changePathToDTS X (swapSourceSuffix X np))])"
  unfolding searchFile_def Let_def probe_def
  by (simp split: option.splits)


lemma readDirect_hits:
  assumes "readDirect X io np = (calls, res)"
  shows "hits calls = (if res = None then 0 else 1)"
  using assms unfolding readDirect_def Let_def hits_def
  by (auto split: option.splits)


subsection \<open>What a call on a key that is not visited does\<close>

lemma resolveCode_failed:
  assumes "\<not> isVisited s (absoluteModuleID X env ref parent search)"
    and "acquire X env ref parent search = (calls, None)"
  shows "resolveCode (Suc depth) X env D ref parent search s =
         Some (\<not> isDirect X ref search, s\<lparr>ioLog := ioLog s @ calls\<rparr>)"
  using assms by (simp add: resolveCode_Suc del: resolveCode.simps)

lemma resolveCode_acquired:
  assumes unvisited: "\<not> isVisited s (absoluteModuleID X env ref parent search)"
    and acq: "acquire X env ref parent search = (calls, Some rf)"
    and res: "resolveCode depth X env D ref parent search s = Some (r, s')"
  shows "r \<and> (\<exists>s2. grows (marked s calls (absoluteModuleID X env ref parent search)) s2 \<and>
           s' = s2\<lparr>dispatched := postResolution D (path rf) (unitOf X env rf) (dispatched s2)\<rparr>)"
proof (cases depth)
  case 0
  with res show ?thesis by simp
next
  case (Suc d)
  have rc: "establishes grows (resolveCode d X env D)"
    unfolding establishes_def using resolveCode_grows by blast
  from res Suc unvisited acq
  have "processResolved (resolveCode d X env D) X env D rf
          (marked s calls (absoluteModuleID X env ref parent search)) = Some (r, s')"
    by (simp add: resolveCode_Suc del: resolveCode.simps)
  from processResolved_rel [OF stepRel_grows rc this] show ?thesis .
qed

lemma isVisited_marked: "isVisited (marked s calls k) k"
  by (simp add: isVisited_def marked_def)

lemma grows_visited: "grows s s' \<Longrightarrow> isVisited s k \<Longrightarrow> isVisited s' k"
  unfolding grows_def visitedKeys_def by blast

lemma isVisited_dispatched: "isVisited (s\<lparr>dispatched := d\<rparr>) k = isVisited s k"
  by (simp add: isVisited_def)

lemma resolveCode_marks:
  assumes unvisited: "\<not> isVisited s (absoluteModuleID X env ref parent search)"
    and acq: "acquire X env ref parent search = (calls, Some rf)"
    and res: "resolveCode depth X env D ref parent search s = Some (r, s')"
  shows "isVisited s' (absoluteModuleID X env ref parent search)"
proof -
  from resolveCode_acquired [OF assms] obtain s2
    where g: "grows (marked s calls (absoluteModuleID X env ref parent search)) s2"
      and eq: "s' = s2\<lparr>dispatched := postResolution D (path rf) (unitOf X env rf) (dispatched s2)\<rparr>"
    by blast
  from grows_visited [OF g isVisited_marked] show ?thesis
    unfolding eq by (simp add: isVisited_dispatched)
qed


subsection \<open>Counting keys, successful calls and dispatched units\<close>















subsection \<open>A deeper bound gives the same result\<close>






subsection \<open>A call returns within a depth above the number of keys not yet visited\<close>








subsection \<open>The recording dispatcher is only appended to\<close>






subsection \<open>The loop over a list of references in two parts\<close>

lemma resolveReferences_append:
  "resolveReferences rc X io D rfp rootDir (xs @ ys) s =
     (case resolveReferences rc X io D rfp rootDir xs s of
        None \<Rightarrow> None
      | Some s1 \<Rightarrow> resolveReferences rc X io D rfp rootDir ys s1)"
proof (induction xs arbitrary: s)
  case Nil
  show ?case by simp
next
  case (Cons fr xs)
  let ?np = "resolvePath io (if isRooted X (refPath fr) then refPath fr else rootDir @ ''/'' @ refPath fr)"
  show ?case
  proof (cases "rfp = ?np")
    case True
    then have t: "?np = rfp" by simp
    show ?thesis by (simp add: Let_def t Cons.IH)
  next
    case False
    then have f: "(rfp = ?np) = False" by simp
    show ?thesis by (simp add: Let_def f Cons.IH split: option.splits)
  qed
qed

lemma searchFile_None:
  "(snd (searchFile X io parentPath np) = None) =
     (hits (untilFirstHit (map (probe io parentPath)
       [np, swapSourceSuffix X np, changePathToDTS X (swapSourceSuffix X np),
        changePathToDSTR X (changePathToDTS X (swapSourceSuffix X np))])) = 0)"
  unfolding searchFile_def Let_def probe_def hits_def
  by (simp split: option.splits)

subsection \<open>The keys a call can mark\<close>







section \<open>The scenarios of the specification\<close>

text \<open>
  C1: in the end-to-end scenario the dispatcher's \<^verbatim>\<open>postResolution\<close> is called for
  \<^verbatim>\<open>util\<close>, \<^verbatim>\<open>core\<close>, \<^verbatim>\<open>lib\<close>, \<^verbatim>\<open>main\<close> in this order (seen by the recording dispatcher),
  and the pass of the command line host returns within depth 3 with exactly these four units
  as the code of the resolved environment, without duplicates and without errors.
\<close>

theorem end_to_end_scenario:
  "map_option (\<lambda>(r, s). (r, postResolutionPaths (dispatched s)))
     (resolveCode 3 (pathExternals mainTable) (environment mainFiles [''/p/main.ts'']) recorder
        ''/p/main.ts'' [] False (newCodeResolver [])) =
     Some (True, [''/p/util.ts'', ''/p/core.ts'', ''/p/lib.ts'', ''/p/main.ts'']) \<and>
   map_option (\<lambda>(e, s). (map path (code e), errorReporter (dispatched s)))
     (resolveCompilationEnvironment 3 (pathExternals mainTable) (environment mainFiles [''/p/main.ts''])) =
     Some ([''/p/util.ts'', ''/p/core.ts'', ''/p/lib.ts'', ''/p/main.ts''], []) \<and>
   distinct [''/p/util.ts'', ''/p/core.ts'', ''/p/lib.ts'', ''/p/main.ts'']"
  by code_simp

text \<open>
  C5: with the old watched list \<^verbatim>\<open>a, b, d\<close> and the new sorted list \<^verbatim>\<open>b, c, d, e\<close>, one
  reconciliation closes the watcher of \<^verbatim>\<open>a\<close>, starts watches on \<^verbatim>\<open>c\<close> and \<^verbatim>\<open>e\<close>, makes no
  call for \<^verbatim>\<open>b\<close> or \<^verbatim>\<open>d\<close>, whose watchers stay, and stores the new list. This holds for any
  sort that yields the new list and any comparison that orders the four pairs the loop
  compares.
\<close>

theorem watch_reconcile_diff:
  assumes sorted_new: "sortFiles (map path (code resolvedEnvironment)) = [''b'', ''c'', ''d'', ''e'']"
    and ab: "localeCompare ''a'' ''b'' < 0"
    and bb: "localeCompare ''b'' ''b'' = 0"
    and dc: "0 < localeCompare ''d'' ''c''"
    and dd: "localeCompare ''d'' ''d'' = 0"
    and old: "resolvedFiles w = [''a'', ''b'', ''d'']"
    and watched: "watchers w = [''a'' \<mapsto> wa, ''b'' \<mapsto> wb, ''d'' \<mapsto> wd]"
  shows "reconcileWatches sortFiles localeCompare resolvedEnvironment w =
         w\<lparr>resolvedFiles := [''b'', ''c'', ''d'', ''e''],
           watchers := [''b'' \<mapsto> wb, ''d'' \<mapsto> wd, ''c'' \<mapsto> Watcher ''c'', ''e'' \<mapsto> Watcher ''e''],
           watchLog := watchLog w @ [CloseWatcher wa, WatchFile ''c'', WatchFile ''e'']\<rparr>"
proof -
  have rm: "removeWatcher ''a'' w =
      w\<lparr>watchLog := watchLog w @ [CloseWatcher wa], watchers := [''b'' \<mapsto> wb, ''d'' \<mapsto> wd]\<rparr>"
    by (auto simp: removeWatcher_def watched fun_eq_iff)
  have loop: "mergeLoop localeCompare [''a'', ''b'', ''d''] [''b'', ''c'', ''d'', ''e''] w =
      ([], [''e''], addWatcher ''c'' (removeWatcher ''a'' w))"
    using ab bb dc dd by (simp add: Let_def)
  show ?thesis
    unfolding reconcileWatches_def Let_def old sorted_new loop
    by (simp add: rm addWatcher_def fun_eq_iff)
qed

theorem watch_reconcile_diff_witness:
  "reconcileWatches sortFilesImpl ordinalCompare (environment [] [''c'', ''b'', ''e'', ''d''])
     \<lparr>resolvedFiles = [''a'', ''b'', ''d''],
      watchers = [''a'' \<mapsto> Watcher ''a'', ''b'' \<mapsto> Watcher ''b'', ''d'' \<mapsto> Watcher ''d''],
      watchLog = []\<rparr> =
   \<lparr>resolvedFiles = [''b'', ''c'', ''d'', ''e''],
    watchers = [''b'' \<mapsto> Watcher ''b'', ''d'' \<mapsto> Watcher ''d'', ''c'' \<mapsto> Watcher ''c'', ''e'' \<mapsto> Watcher ''e''],
    watchLog = [CloseWatcher (Watcher ''a''), WatchFile ''c'', WatchFile ''e'']\<rparr>"
proof -
  have s: "sortFilesImpl (map path (code (environment [] [''c'', ''b'', ''e'', ''d'']))) = [''b'', ''c'', ''d'', ''e'']"
    by code_simp
  have c1: "ordinalCompare ''a'' ''b'' < 0" by code_simp
  have c2: "ordinalCompare ''b'' ''b'' = 0" by code_simp
  have c3: "0 < ordinalCompare ''d'' ''c''" by code_simp
  have c4: "ordinalCompare ''d'' ''d'' = 0" by code_simp
  show ?thesis
    using watch_reconcile_diff [of sortFilesImpl "environment [] [''c'', ''b'', ''e'', ''d'']" ordinalCompare
        "\<lparr>resolvedFiles = [''a'', ''b'', ''d''],
      watchers = [''a'' \<mapsto> Watcher ''a'', ''b'' \<mapsto> Watcher ''b'', ''d'' \<mapsto> Watcher ''d''],
      watchLog = []\<rparr>" "Watcher ''a''" "Watcher ''b''" "Watcher ''d''", OF s c1 c2 c3 c4]
    by simp
qed

section \<open>Rendering of resolution errors\<close>

text \<open>
  C8: what the host's dispatcher writes for a resolution error. Called as the resolver
  calls it, with the file, the reference and the message, it prints the reference object
  in the place of the line, the message in the place of the column and \<^verbatim>\<open>undefined\<close> as
  the message. Given a line, a column and a message as its parameter list names them, it
  prints them with a space before the colon and the column as it is, not incremented.
\<close>

theorem resolution_error_rendering:
  "errorReporter (postResolutionError (resolutionDispatcher X settings) ''/p/s.ts''
      \<lparr>line = 3, character = 0, refPath = ''s.ts'', isResident = False\<rparr> selfReferenceMessage
      newCommandLineHost) =
     [''/p/s.ts([object Object],Incorrect reference: File contains reference to itself.) : undefined''] \<and>
   renderResolutionError ''/p/s.ts'' (JSNumber 3) (JSNumber 0) (JSString selfReferenceMessage) =
     ''/p/s.ts(3,0) : Incorrect reference: File contains reference to itself.''"
  by (simp add: resolutionDispatcher_def renderResolutionError_def selfReferenceMessage_def newCommandLineHost_def)


section \<open>The result of resolveCode\<close>

text \<open>
  C2: the result of a call on a key that is not visited. In the direct strategy the call
  returns true exactly when the content was acquired, whatever happens to nested
  references. In the search strategy it returns true in every case, also when none of the
  four searches finds the file: the branch that fails to find the file has no
  \<^verbatim>\<open>return false\<close>, so the caller's report of an unresolved import never fires for a
  bare name.
\<close>

theorem resolveCode_result:
  assumes unvisited: "\<not> isVisited s (absoluteModuleID X env ref parent search)"
    and res: "resolveCode depth X env D ref parent search s = Some (r, s')"
  shows "r = (if isDirect X ref search
              then snd (readDirect X (ioHost env) (normalizedPathOf X (ioHost env) ref parent search)) \<noteq> None
              else True)"
proof -
  obtain calls out where acq: "acquire X env ref parent search = (calls, out)"
    by (cases "acquire X env ref parent search")
  show ?thesis
  proof (cases out)
    case None
    from res obtain d where d: "depth = Suc d" by (cases depth) auto
    from res resolveCode_failed [OF unvisited acq [unfolded None], of d D]
    have "r = (\<not> isDirect X ref search)" unfolding d by simp
    moreover have "isDirect X ref search \<Longrightarrow>
        snd (readDirect X (ioHost env) (normalizedPathOf X (ioHost env) ref parent search)) = None"
      using acq None by (simp add: acquire_def Let_def)
    ultimately show ?thesis by auto
  next
    case (Some rf)
    from resolveCode_acquired [OF unvisited acq [unfolded Some] res] have "r" by blast
    moreover have "isDirect X ref search \<Longrightarrow>
        snd (readDirect X (ioHost env) (normalizedPathOf X (ioHost env) ref parent search)) \<noteq> None"
      using acq Some by (simp add: acquire_def Let_def)
    ultimately show ?thesis by auto
  qed
qed

theorem resolveCode_result_witness:
  "map_option (\<lambda>(r, s). (r, ioLog s, dispatched s))
     (resolveCode 1 (pathExternals mainTable) (environment mainFiles []) recorder ''nolib'' ''/p'' True
        (newCodeResolver [])) =
     Some (True, [FindFile ''/p'' ''nolib.ts'' False, FindFile ''/p'' ''nolib.str'' False,
                  FindFile ''/p'' ''nolib.d.ts'' False, FindFile ''/p'' ''nolib.d.str'' False], []) \<and>
   snd (searchFile (pathExternals mainTable) (fileSystem mainFiles) ''/p'' ''nolib.ts'') = None \<and>
   True = (if isDirect (pathExternals mainTable) ''nolib'' True
           then snd (readDirect (pathExternals mainTable) (ioHost (environment mainFiles []))
                  (normalizedPathOf (pathExternals mainTable) (ioHost (environment mainFiles []))
                     ''nolib'' ''/p'' True)) \<noteq> None
           else True)"
proof -
  have u: "\<not> isVisited (newCodeResolver ([] :: dispatcherCall list))
             (absoluteModuleID (pathExternals mainTable) (environment mainFiles []) ''nolib'' ''/p'' True)"
    by (simp add: isVisited_def newCodeResolver_def)
  have e: "map_option (\<lambda>(r, s). (r, ioLog s, dispatched s))
     (resolveCode 1 (pathExternals mainTable) (environment mainFiles []) recorder ''nolib'' ''/p'' True
        (newCodeResolver [])) =
     Some (True, [FindFile ''/p'' ''nolib.ts'' False, FindFile ''/p'' ''nolib.str'' False,
                  FindFile ''/p'' ''nolib.d.ts'' False, FindFile ''/p'' ''nolib.d.str'' False], [])"
    by code_simp
  then obtain s' where r: "resolveCode 1 (pathExternals mainTable) (environment mainFiles []) recorder
        ''nolib'' ''/p'' True (newCodeResolver []) = Some (True, s')"
    by auto
  have f: "snd (searchFile (pathExternals mainTable) (fileSystem mainFiles) ''/p'' ''nolib.ts'') = None"
    by code_simp
  from resolveCode_result [OF u r] e f show ?thesis by simp
qed

section \<open>The order of the searches\<close>

text \<open>
  C3: with search requested and a reference that is neither relative nor rooted, a call on
  a key that is not visited makes exactly these calls of the search capability, in this
  order, up to and including the first that finds a file: the normalised name, the name
  with the other source suffix, the primary declaration suffix \<^verbatim>\<open>.d.ts\<close>, the legacy
  declaration suffix \<^verbatim>\<open>.d.str\<close>. The search fails exactly when none of them finds a file,
  and nothing else is logged before the file found is processed. The two declaration
  suffixes are tried in the reverse of the order of the direct strategy: for a module
  that exists as \<^verbatim>\<open>m.d.str\<close> and as \<^verbatim>\<open>m.d.ts\<close> the search stops at \<^verbatim>\<open>m.d.ts\<close> and never
  looks for \<^verbatim>\<open>m.d.str\<close>.
\<close>

theorem search_probe_order:
  assumes search: "search" and bare: "\<not> isRelative X ref" "\<not> isRooted X ref"
    and unvisited: "\<not> isVisited s (absoluteModuleID X env ref parent search)"
    and name: "np = normalizedPathOf X (ioHost env) ref parent search"
    and probes: "calls = untilFirstHit (map (probe (ioHost env) parent)
                   [np, swapSourceSuffix X np, changePathToDTS X (swapSourceSuffix X np),
                    changePathToDSTR X (changePathToDTS X (swapSourceSuffix X np))])"
  shows "fst (searchFile X (ioHost env) parent np) = calls \<and>
         (snd (searchFile X (ioHost env) parent np) = None) = (hits calls = 0) \<and>
         resolveCode (Suc depth) X env D ref parent search s =
           (case snd (searchFile X (ioHost env) parent np) of
              None \<Rightarrow> Some (True, s\<lparr>ioLog := ioLog s @ calls\<rparr>)
            | Some resolvedFile \<Rightarrow>
                processResolved (resolveCode depth X env D) X env D resolvedFile
                  (marked s calls (absoluteModuleID X env ref parent search)))"
proof -
  have nd: "\<not> isDirect X ref search"
    using search bare by (simp add: isDirect_def)
  have c: "fst (searchFile X (ioHost env) parent np) = calls"
    unfolding probes by (rule searchFile_calls)
  have n: "(snd (searchFile X (ioHost env) parent np) = None) = (hits calls = 0)"
    unfolding probes by (rule searchFile_None)
  have a: "acquire X env ref parent search = (calls, snd (searchFile X (ioHost env) parent np))"
    using nd c name by (simp add: acquire_def Let_def prod_eq_iff)
  have "resolveCode (Suc depth) X env D ref parent search s =
           (case snd (searchFile X (ioHost env) parent np) of
              None \<Rightarrow> Some (True, s\<lparr>ioLog := ioLog s @ calls\<rparr>)
            | Some resolvedFile \<Rightarrow>
                processResolved (resolveCode depth X env D) X env D resolvedFile
                  (marked s calls (absoluteModuleID X env ref parent search)))"
    using unvisited nd by (simp add: resolveCode_Suc a del: resolveCode.simps split: option.splits)
  with c n show ?thesis by blast
qed

theorem search_probe_order_witness:
  "fst (searchFile (pathExternals []) (fileSystem declFiles) ''/p'' ''m.ts'') =
     [FindFile ''/p'' ''m.ts'' False, FindFile ''/p'' ''m.str'' False, FindFile ''/p'' ''m.d.ts'' True] \<and>
   findFile (fileSystem declFiles) ''/p'' ''m.d.str'' \<noteq> None \<and>
   map_option (\<lambda>(r, s). (r, ioLog s, postResolutionPaths (dispatched s)))
     (resolveCode (Suc 0) (pathExternals []) (environment declFiles []) recorder ''m'' ''/p'' True
        (newCodeResolver [])) =
     Some (True, [FindFile ''/p'' ''m.ts'' False, FindFile ''/p'' ''m.str'' False,
                  FindFile ''/p'' ''m.d.ts'' True], [''/p/m.d.ts''])"
proof -
  let ?X = "pathExternals []" and ?env = "environment declFiles []"
  let ?s = "newCodeResolver ([] :: dispatcherCall list)"
  let ?calls = "[FindFile ''/p'' ''m.ts'' False, FindFile ''/p'' ''m.str'' False,
                 FindFile ''/p'' ''m.d.ts'' True]"
  have u: "\<not> isVisited ?s (absoluteModuleID ?X ?env ''m'' ''/p'' True)"
    by (simp add: isVisited_def newCodeResolver_def)
  have b1: "\<not> isRelative ?X ''m''" by code_simp
  have b2: "\<not> isRooted ?X ''m''" by code_simp
  have n: "''m.ts'' = normalizedPathOf ?X (ioHost ?env) ''m'' ''/p'' True" by code_simp
  have p: "?calls = untilFirstHit (map (probe (ioHost ?env) ''/p'')
             [''m.ts'', swapSourceSuffix ?X ''m.ts'', changePathToDTS ?X (swapSourceSuffix ?X ''m.ts''),
              changePathToDSTR ?X (changePathToDTS ?X (swapSourceSuffix ?X ''m.ts''))])"
    by code_simp
  have io: "ioHost ?env = fileSystem declFiles" by (simp add: environment_def)
  have d: "findFile (fileSystem declFiles) ''/p'' ''m.d.str'' \<noteq> None" by code_simp
  have e: "map_option (\<lambda>(r, s). (r, ioLog s, postResolutionPaths (dispatched s)))
     (case snd (searchFile ?X (ioHost ?env) ''/p'' ''m.ts'') of
        None \<Rightarrow> Some (True, ?s\<lparr>ioLog := ioLog ?s @ ?calls\<rparr>)
      | Some resolvedFile \<Rightarrow>
          processResolved (resolveCode 0 ?X ?env recorder) ?X ?env recorder resolvedFile
            (marked ?s ?calls (absoluteModuleID ?X ?env ''m'' ''/p'' True))) =
     Some (True, ?calls, [''/p/m.d.ts''])"
    by code_simp
  from search_probe_order [OF _ b1 b2 u n p, of 0 recorder] e d show ?thesis
    unfolding io by simp
qed

section \<open>Visiting a key again\<close>

text \<open>
  C4: once a call has acquired the content for a key, a later call for a reference with
  the same key returns true at once and leaves the state as it is: no file system call
  and no dispatcher call. In the example of \<^verbatim>\<open>util\<close> the two calls together make one read and
  one \<^verbatim>\<open>postResolution\<close> call.
\<close>

theorem revisit_is_noop:
  assumes first: "resolveCode depth X env D ref parent search s = Some (r, s1)"
    and acquired: "snd (acquire X env ref parent search) \<noteq> None"
    and same: "absoluteModuleID X env ref' parent' search' = absoluteModuleID X env ref parent search"
  shows "resolveCode (Suc depth') X env D ref' parent' search' s1 = Some (True, s1)"
proof -
  have "isVisited s1 (absoluteModuleID X env ref parent search)"
  proof (cases "isVisited s (absoluteModuleID X env ref parent search)")
    case True
    with resolveCode_grows [OF first] show ?thesis by (rule grows_visited)
  next
    case False
    from acquired obtain calls rf where "acquire X env ref parent search = (calls, Some rf)"
      by (cases "acquire X env ref parent search") auto
    from resolveCode_marks [OF False this first] show ?thesis .
  qed
  then show ?thesis
    by (simp add: resolveCode_Suc same del: resolveCode.simps)
qed

theorem revisit_is_noop_witness:
  "map_option (\<lambda>(r, s). (r, ioLog s, postResolutionPaths (dispatched s)))
     (resolveCode 1 (pathExternals mainTable) (environment mainFiles []) recorder ''util.ts'' ''/p'' False
        (newCodeResolver [])) =
     Some (True, [ReadFile ''/p/util.ts'' True], [''/p/util.ts'']) \<and>
   map_option (\<lambda>(r, s). (r, ioLog s, postResolutionPaths (dispatched s)))
     (case resolveCode 1 (pathExternals mainTable) (environment mainFiles []) recorder ''util.ts'' ''/p'' False
        (newCodeResolver []) of None \<Rightarrow> None
      | Some (r, s1) \<Rightarrow> resolveCode 1 (pathExternals mainTable) (environment mainFiles []) recorder
          ''/p/UTIL'' [] True s1) =
     Some (True, [ReadFile ''/p/util.ts'' True], [''/p/util.ts''])"
proof -
  let ?X = "pathExternals mainTable" and ?env = "environment mainFiles []"
  have e: "map_option (\<lambda>(r, s). (r, ioLog s, postResolutionPaths (dispatched s)))
     (resolveCode 1 ?X ?env recorder ''util.ts'' ''/p'' False (newCodeResolver [])) =
     Some (True, [ReadFile ''/p/util.ts'' True], [''/p/util.ts''])"
    by code_simp
  then obtain s1 where r: "resolveCode 1 ?X ?env recorder ''util.ts'' ''/p'' False (newCodeResolver []) =
      Some (True, s1)"
    and l: "ioLog s1 = [ReadFile ''/p/util.ts'' True]" "postResolutionPaths (dispatched s1) = [''/p/util.ts'']"
    by auto
  have a: "snd (acquire ?X ?env ''util.ts'' ''/p'' False) \<noteq> None"
    by code_simp
  have k: "absoluteModuleID ?X ?env ''/p/UTIL'' [] True = absoluteModuleID ?X ?env ''util.ts'' ''/p'' False"
    by code_simp
  from revisit_is_noop [OF r a k, of 0] e r l show ?thesis by simp
qed

section \<open>References of a file to itself\<close>


text \<open>
  C7: a call that acquires a file whose explicit references contain, at any position, one
  whose resolved path is the resolved path of the file itself. The call processes the
  references before it, hands the self-reference error for it to \<^verbatim>\<open>postResolutionError\<close>,
  makes no recursive call for it, goes on with the remaining references and the imports,
  and dispatches the unit. A file that refers only to itself is resolved at depth one,
  where no recursive call could return.
\<close>

theorem self_reference_reported:
  assumes unvisited: "\<not> isVisited s (absoluteModuleID X env ref parent search)"
    and acquired: "acquire X env ref parent search = (calls, Some rf)"
    and directives: "preProcessFile X \<lparr>content = content rf, path = path rf, referencedFiles = None\<rparr>
                       (compilationSettings env) = (before @ fileReference # rest, imps)"
    and self: "resolvePath (ioHost env)
                 (if isRooted X (refPath fileReference) then refPath fileReference
                  else dirName (ioHost env) (path rf) @ ''/'' @ refPath fileReference) =
               resolvePath (ioHost env) (path rf)"
  shows "resolveCode (Suc depth) X env D ref parent search s =
     (case resolveReferences (resolveCode depth X env D) X (ioHost env) D
             (resolvePath (ioHost env) (path rf)) (dirName (ioHost env) (path rf)) before
             (marked s calls (absoluteModuleID X env ref parent search)) of
        None \<Rightarrow> None
      | Some s1 \<Rightarrow>
         (case resolveReferences (resolveCode depth X env D) X (ioHost env) D
                 (resolvePath (ioHost env) (path rf)) (dirName (ioHost env) (path rf)) rest
                 (s1\<lparr>dispatched := postResolutionError D (resolvePath (ioHost env) (path rf))
                                      fileReference selfReferenceMessage (dispatched s1)\<rparr>) of
            None \<Rightarrow> None
          | Some s2 \<Rightarrow>
             (case resolveImports (resolveCode depth X env D) D
                     (resolvePath (ioHost env) (path rf)) (dirName (ioHost env) (path rf)) imps s2 of
                None \<Rightarrow> None
              | Some s3 \<Rightarrow>
                  Some (True, s3\<lparr>dispatched := postResolution D (path rf) (unitOf X env rf)
                                                   (dispatched s3)\<rparr>))))"
proof -
  let ?rc = "resolveCode depth X env D"
  let ?rfp = "resolvePath (ioHost env) (path rf)"
  let ?dir = "dirName (ioHost env) (path rf)"
  have step: "resolveReferences ?rc X (ioHost env) D ?rfp ?dir (fileReference # rest) s1 =
        resolveReferences ?rc X (ioHost env) D ?rfp ?dir rest
          (s1\<lparr>dispatched := postResolutionError D ?rfp fileReference selfReferenceMessage (dispatched s1)\<rparr>)"
    for s1
    by (simp add: Let_def self reportError_def)
  have loop: "resolveReferences ?rc X (ioHost env) D ?rfp ?dir (before @ fileReference # rest) s0 =
     (case resolveReferences ?rc X (ioHost env) D ?rfp ?dir before s0 of
        None \<Rightarrow> None
      | Some s1 \<Rightarrow> resolveReferences ?rc X (ioHost env) D ?rfp ?dir rest
          (s1\<lparr>dispatched := postResolutionError D ?rfp fileReference selfReferenceMessage (dispatched s1)\<rparr>))"
    for s0
    by (simp only: resolveReferences_append step)
  have "resolveCode (Suc depth) X env D ref parent search s =
      processResolved ?rc X env D rf (marked s calls (absoluteModuleID X env ref parent search))"
    using unvisited acquired by (simp add: resolveCode_Suc del: resolveCode.simps)
  then show ?thesis
    by (simp add: processResolved_def Let_def directives loop unitOf_def del: resolveCode.simps
          split: option.splits)
qed

theorem self_reference_reported_witness:
  "map_option (\<lambda>(r, s). (r, ioLog s, dispatched s))
     (resolveCode (Suc (Suc 0)) (pathExternals selfTable) (environment selfFiles []) recorder
        ''/p/s.ts'' [] False (newCodeResolver [])) =
   Some (True, [ReadFile ''/p/s.ts'' True, ReadFile ''/p/util.ts'' True],
         [PostResolutionError ''/p/s.ts'' (mkReference ''s.ts'') selfReferenceMessage,
          PostResolution ''/p/util.ts''
            \<lparr>content = ''util'', path = ''/p/util.ts'', referencedFiles = Some []\<rparr>,
          PostResolution ''/p/s.ts''
            \<lparr>content = ''self'', path = ''/p/s.ts'',
             referencedFiles = Some [mkReference ''s.ts'', mkReference ''util.ts'']\<rparr>]) \<and>
   map_option (\<lambda>(r, s). (r, ioLog s, dispatched s))
     (resolveCode (Suc 0) (pathExternals loneTable) (environment loneFiles []) recorder
        ''/p/s.ts'' [] False (newCodeResolver [])) =
   Some (True, [ReadFile ''/p/s.ts'' True],
         [PostResolutionError ''/p/s.ts'' (mkReference ''s.ts'') selfReferenceMessage,
          PostResolution ''/p/s.ts''
            \<lparr>content = ''lone'', path = ''/p/s.ts'',
             referencedFiles = Some [mkReference ''s.ts'']\<rparr>])"
proof -
  let ?X = "pathExternals selfTable" and ?env = "environment selfFiles []"
  let ?Y = "pathExternals loneTable" and ?lone = "environment loneFiles []"
  let ?s = "newCodeResolver ([] :: dispatcherCall list)"
  let ?rf = "\<lparr>content = ''self'', path = ''/p/s.ts''\<rparr>"
  let ?lf = "\<lparr>content = ''lone'', path = ''/p/s.ts''\<rparr>"
  have u: "\<not> isVisited ?s (absoluteModuleID ?X ?env ''/p/s.ts'' [] False)"
    by (simp add: isVisited_def newCodeResolver_def)
  have a: "acquire ?X ?env ''/p/s.ts'' [] False = ([ReadFile ''/p/s.ts'' True], Some ?rf)"
    by code_simp
  have p: "preProcessFile ?X \<lparr>content = content ?rf, path = path ?rf, referencedFiles = None\<rparr>
             (compilationSettings ?env) = ([] @ mkReference ''s.ts'' # [mkReference ''util.ts''], [])"
    by code_simp
  have h: "resolvePath (ioHost ?env)
                 (if isRooted ?X (refPath (mkReference ''s.ts'')) then refPath (mkReference ''s.ts'')
                  else dirName (ioHost ?env) (path ?rf) @ ''/'' @ refPath (mkReference ''s.ts'')) =
               resolvePath (ioHost ?env) (path ?rf)"
    by code_simp
  have one: "map_option (\<lambda>(r, s). (r, ioLog s, dispatched s))
     (resolveCode (Suc (Suc 0)) ?X ?env recorder ''/p/s.ts'' [] False ?s) =
   Some (True, [ReadFile ''/p/s.ts'' True, ReadFile ''/p/util.ts'' True],
         [PostResolutionError ''/p/s.ts'' (mkReference ''s.ts'') selfReferenceMessage,
          PostResolution ''/p/util.ts''
            \<lparr>content = ''util'', path = ''/p/util.ts'', referencedFiles = Some []\<rparr>,
          PostResolution ''/p/s.ts''
            \<lparr>content = ''self'', path = ''/p/s.ts'',
             referencedFiles = Some [mkReference ''s.ts'', mkReference ''util.ts'']\<rparr>])"
    unfolding self_reference_reported [OF u a p h, of "Suc 0" recorder]
    by code_simp
  have u': "\<not> isVisited ?s (absoluteModuleID ?Y ?lone ''/p/s.ts'' [] False)"
    by (simp add: isVisited_def newCodeResolver_def)
  have a': "acquire ?Y ?lone ''/p/s.ts'' [] False = ([ReadFile ''/p/s.ts'' True], Some ?lf)"
    by code_simp
  have p': "preProcessFile ?Y \<lparr>content = content ?lf, path = path ?lf, referencedFiles = None\<rparr>
             (compilationSettings ?lone) = ([] @ mkReference ''s.ts'' # [], [])"
    by code_simp
  have h': "resolvePath (ioHost ?lone)
                 (if isRooted ?Y (refPath (mkReference ''s.ts'')) then refPath (mkReference ''s.ts'')
                  else dirName (ioHost ?lone) (path ?lf) @ ''/'' @ refPath (mkReference ''s.ts'')) =
               resolvePath (ioHost ?lone) (path ?lf)"
    by code_simp
  have two: "map_option (\<lambda>(r, s). (r, ioLog s, dispatched s))
     (resolveCode (Suc 0) ?Y ?lone recorder ''/p/s.ts'' [] False ?s) =
   Some (True, [ReadFile ''/p/s.ts'' True],
         [PostResolutionError ''/p/s.ts'' (mkReference ''s.ts'') selfReferenceMessage,
          PostResolution ''/p/s.ts''
            \<lparr>content = ''lone'', path = ''/p/s.ts'',
             referencedFiles = Some [mkReference ''s.ts'']\<rparr>])"
    unfolding self_reference_reported [OF u' a' p' h', of 0 recorder]
    by code_simp
  from one two show ?thesis by (rule conjI)
qed

section \<open>A failed acquisition leaves no trace in the resolver\<close>

text \<open>
  C9: when the direct strategy fails, after four reads, the call returns false, the
  visited keys and the dispatcher are as before, and a second call for the same reference
  makes the same four reads again and fails again.
\<close>

theorem failed_acquisition_not_cached:
  assumes direct: "isDirect X ref search"
    and unvisited: "\<not> isVisited s (absoluteModuleID X env ref parent search)"
    and failed: "readDirect X (ioHost env) (normalizedPathOf X (ioHost env) ref parent search) = (calls, None)"
  shows "\<exists>s'. resolveCode (Suc depth) X env D ref parent search s = Some (False, s') \<and>
           visited s' = visited s \<and> dispatched s' = dispatched s \<and> ioLog s' = ioLog s @ calls \<and>
           hits calls = 0 \<and> length calls = 4 \<and>
           (\<exists>s''. resolveCode (Suc depth') X env D ref parent search s' = Some (False, s'') \<and>
                   visited s'' = visited s \<and> dispatched s'' = dispatched s \<and>
                   ioLog s'' = ioLog s @ calls @ calls)"
proof -
  let ?s' = "s\<lparr>ioLog := ioLog s @ calls\<rparr>"
  have acq: "acquire X env ref parent search = (calls, None)"
    using direct failed by (simp add: acquire_def Let_def)
  have one: "resolveCode (Suc depth) X env D ref parent search s = Some (False, ?s')"
    using resolveCode_failed [OF unvisited acq] direct by simp
  have unvisited': "\<not> isVisited ?s' (absoluteModuleID X env ref parent search)"
    using unvisited by (simp add: isVisited_def)
  have two: "resolveCode (Suc depth') X env D ref parent search ?s' =
      Some (False, ?s'\<lparr>ioLog := ioLog ?s' @ calls\<rparr>)"
    using resolveCode_failed [OF unvisited' acq] direct by simp
  have h: "hits calls = 0" using readDirect_hits [OF failed] by simp
  have n: "length calls = 4" using readDirect_None [OF failed] by simp
  from one two h n show ?thesis by simp
qed

theorem failed_acquisition_not_cached_witness:
  "map_option (\<lambda>(r, s). (r, ioLog s, dispatched s, visited s ''/P/NOFILE.TS''))
     (resolveCode 1 (pathExternals mainTable) (environment mainFiles []) recorder ''nofile'' ''/p'' False
        (newCodeResolver [])) =
     Some (False, [ReadFile ''/p/nofile.ts'' False, ReadFile ''/p/nofile.str'' False,
                   ReadFile ''/p/nofile.d.str'' False, ReadFile ''/p/nofile.d.ts'' False], [], None) \<and>
   (\<exists>s'. resolveCode (Suc 0) (pathExternals mainTable) (environment mainFiles []) recorder ''nofile'' ''/p''
            False (newCodeResolver []) = Some (False, s') \<and>
      (\<exists>s''. resolveCode (Suc 0) (pathExternals mainTable) (environment mainFiles []) recorder ''nofile''
            ''/p'' False s' = Some (False, s'') \<and>
         ioLog s'' = [ReadFile ''/p/nofile.ts'' False, ReadFile ''/p/nofile.str'' False,
                   ReadFile ''/p/nofile.d.str'' False, ReadFile ''/p/nofile.d.ts'' False,
                   ReadFile ''/p/nofile.ts'' False, ReadFile ''/p/nofile.str'' False,
                   ReadFile ''/p/nofile.d.str'' False, ReadFile ''/p/nofile.d.ts'' False]))"
proof -
  let ?X = "pathExternals mainTable" and ?env = "environment mainFiles []"
  let ?calls = "[ReadFile ''/p/nofile.ts'' False, ReadFile ''/p/nofile.str'' False,
                   ReadFile ''/p/nofile.d.str'' False, ReadFile ''/p/nofile.d.ts'' False]"
  have d: "isDirect ?X ''nofile'' False" by code_simp
  have u: "\<not> isVisited (newCodeResolver ([] :: dispatcherCall list))
             (absoluteModuleID ?X ?env ''nofile'' ''/p'' False)"
    by (simp add: isVisited_def newCodeResolver_def)
  have f: "readDirect ?X (ioHost ?env) (normalizedPathOf ?X (ioHost ?env) ''nofile'' ''/p'' False) =
      (?calls, None)"
    by code_simp
  have e: "map_option (\<lambda>(r, s). (r, ioLog s, dispatched s, visited s ''/P/NOFILE.TS''))
     (resolveCode 1 ?X ?env recorder ''nofile'' ''/p'' False (newCodeResolver [])) =
     Some (False, ?calls, [], None)"
    by code_simp
  have n: "ioLog (newCodeResolver ([] :: dispatcherCall list)) = []"
    by (simp add: newCodeResolver_def)
  from failed_acquisition_not_cached [OF d u f, of 0 recorder 0] e n show ?thesis
    by auto
qed

section \<open>Termination of a resolution pass\<close>




section \<open>Keys are taken before the fallback\<close>




end
